theory Spec2Isabelle
  imports Complex_Main "HOL-Library.Word" "HOL-Library.Sublist"
begin

section \<open>Resnet.py: a residual network for CIFAR-10, as a shallow embedding\<close>

text \<open>
  The script is a flat sequence of notebook cells. Each cell is embedded as a definition
  that keeps the names of the script's variables. Python floats are modelled by the real
  numbers they denote, Python ints by \<open>int\<close> or \<open>nat\<close>, a \<open>uint8\<close> pixel by an
  \<open>8 word\<close>. Functions the script calls in Keras and NumPy are not part of the script;
  where a property depends on what such a function does, the function is modelled after
  the library's implementation, and the definition says so.
\<close>

subsection \<open>Cell In[13]: loading and normalising the dataset\<close>

datatype py_error = IndexError | ValueError

text \<open>
  What \<open>kd.cifar10.load_data()\<close> returns: images with \<open>uint8\<close> pixels and one integer
  class label for each image. An image is kept as the list of its pixel values (the division
  below is elementwise, so the arrangement of the pixels in rows, columns and colour
  channels plays no role).
\<close>

record raw_dataset =
  x_train_raw :: "8 word list list"
  y_train_raw :: "nat list"
  x_test_raw :: "8 word list list"
  y_test_raw :: "nat list"

record dataset =
  x_train :: "real list list"
  y_train :: "real list list"
  x_test :: "real list list"
  y_test :: "real list list"

definition labels :: "string list" where
  "labels = [''airplane'', ''car'', ''bird'', ''cat'', ''deer'', ''dog'', ''frog'', ''horse'',
     ''ship'', ''truck'']"

text \<open>\<open>x / 255.\<close> on an array of images: every pixel is divided by 255.\<close>

definition div255 :: "8 word list list \<Rightarrow> real list list" where
  "div255 x = map (map (\<lambda>p. real (unat p) / 255)) x"

text \<open>\<open>N = len(labels)\<close>\<close>

definition N :: nat where
  "N = length labels"

text \<open>
  \<open>keras.utils.to_categorical(y, num_classes)\<close>, a function of Keras, modelled after its
  implementation: the class count defaults to the largest label plus one, a matrix of
  zeros with one row for each label is allocated, and \<open>categorical[np.arange(n), y] = 1\<close>
  writes a one into row \<open>i\<close> at column \<open>y[i]\<close>, which raises IndexError when the label is
  not a column of the matrix.
\<close>

fun assign_ones :: "real list list \<Rightarrow> nat list \<Rightarrow> py_error + real list list" where
  "assign_ones (row # rows) (c # cs) =
     (if c < length row
      then (case assign_ones rows cs of
              Inl e \<Rightarrow> Inl e
            | Inr rows' \<Rightarrow> Inr (row[c := 1] # rows'))
      else Inl IndexError)"
| "assign_ones rows cs = Inr rows"

definition to_categorical :: "nat list \<Rightarrow> nat \<Rightarrow> py_error + real list list" where
  "to_categorical y num_classes =
     (if num_classes = 0 \<and> y = [] then Inl ValueError
      else let num_classes = (if num_classes = 0 then Max (set y) + 1 else num_classes);
               n = length y;
               categorical = replicate n (replicate num_classes 0)
           in assign_ones categorical y)"

text \<open>Lines 42 to 52 of the script, from the loaded data to the arrays used for training.\<close>

definition prepare :: "raw_dataset \<Rightarrow> py_error + dataset" where
  "prepare d =
     (let xs_train = div255 (x_train_raw d);
          xs_test = div255 (x_test_raw d)
      in case to_categorical (y_train_raw d) N of
           Inl e \<Rightarrow> Inl e
         | Inr ys_train \<Rightarrow>
             (case to_categorical (y_test_raw d) N of
                Inl e \<Rightarrow> Inl e
              | Inr ys_test \<Rightarrow>
                  Inr \<lparr>x_train = xs_train, y_train = ys_train,
                       x_test = xs_test, y_test = ys_test\<rparr>))"

subsection \<open>Cell In[14]: the graph of layers\<close>

text \<open>
  Calling a Keras layer on tensors adds a node to the model's graph and returns the node's
  output tensor. The graph is kept as the list of its nodes in the order of the calls; a
  tensor is the index of the node that produces it, so a tensor used twice (as \<open>act1\<close>
  is, by the convolution branch and by the skip connection) is one node with two
  consumers. The shape of a tensor leaves out the batch dimension.
\<close>

type_synonym shape = "nat list"
type_synonym tensor = nat

text \<open>
  The layers the script creates, with the arguments it passes: \<open>Conv2D\<close> carries the
  filters, the kernel size, the padding, the strides (1 when the script gives none) and
  the factor of its \<open>kr.l2\<close> kernel regulariser.
\<close>

datatype layer =
    Input shape
  | Conv2D nat "nat \<times> nat" string nat real
  | BatchNormalization
  | Activation string
  | Add
  | GlobalAveragePooling2D
  | Dense nat

type_synonym node = "layer \<times> tensor list"
type_synonym graph = "node list"

definition call :: "layer \<Rightarrow> tensor list \<Rightarrow> graph \<Rightarrow> tensor \<times> graph" where
  "call l ins g = (length g, g @ [(l, ins)])"

text \<open>
  \<open>for _ in range(n)\<close> around a body that reads and reassigns \<open>act1\<close>. The other
  variables a body assigns (\<open>conv\<close>, \<open>bn\<close>, \<open>act\<close>, \<open>skip\<close>) are assigned again
  before the script next reads them, so only \<open>act1\<close> and the graph are carried.
\<close>

fun for_range :: "nat \<Rightarrow> (tensor \<Rightarrow> graph \<Rightarrow> tensor \<times> graph) \<Rightarrow> tensor \<Rightarrow> graph
    \<Rightarrow> tensor \<times> graph" where
  "for_range 0 body act1 g = (act1, g)"
| "for_range (Suc n) body act1 g = (case body act1 g of (act1', g') \<Rightarrow> for_range n body act1' g')"

text \<open>
  The body of the three loops (lines 79 to 88, 105 to 114 and 131 to 139), which differ
  in the number of filters only: 16, 32 and 64.
\<close>

definition conv_block :: "nat \<Rightarrow> tensor \<Rightarrow> graph \<Rightarrow> tensor \<times> graph" where
  "conv_block filters act1 g =
     (let (conv, g) = call (Conv2D filters (3, 3) ''same'' 1 (1 / 10000)) [act1] g;
          (bn, g) = call BatchNormalization [conv] g;
          (act, g) = call (Activation ''relu'') [bn] g;
          (conv, g) = call (Conv2D filters (3, 3) ''same'' 1 (1 / 10000)) [act] g;
          (bn, g) = call BatchNormalization [conv] g;
          (skip, g) = call Add [act1, bn] g;
          (act1, g) = call (Activation ''relu'') [skip] g
      in (act1, g))"

text \<open>
  The two downsampling sections (lines 91 to 101 and 117 to 127), which differ in the
  number of filters only: 32 and 64.
\<close>

definition downsampling :: "nat \<Rightarrow> tensor \<Rightarrow> graph \<Rightarrow> tensor \<times> graph" where
  "downsampling filters act1 g =
     (let (conv, g) = call (Conv2D filters (3, 3) ''same'' 2 (1 / 10000)) [act1] g;
          (bn, g) = call BatchNormalization [conv] g;
          (act, g) = call (Activation ''relu'') [bn] g;
          (conv, g) = call (Conv2D filters (3, 3) ''same'' 1 (1 / 10000)) [act] g;
          (bn, g) = call BatchNormalization [conv] g;
          (act1_downsampled, g) = call (Conv2D filters (1, 1) ''same'' 2 (1 / 10000)) [act1] g;
          (skip_downsampled, g) = call Add [act1_downsampled, bn] g;
          (act1, g) = call (Activation ''relu'') [skip_downsampled] g
      in (act1, g))"

text \<open>
  Cells In[14] and In[16], from \<open>inputs\<close> to \<open>softmax\<close>. The shape of the input is
  \<open>x_train.shape[1:]\<close>, which the loaded data decides; it is a parameter here.
\<close>

record network =
  graph :: graph
  inputs :: tensor
  final_dense :: tensor
  softmax :: tensor

definition build :: "shape \<Rightarrow> network" where
  "build input_shape =
     (let g = [];
          (inputs', g) = call (Input input_shape) [] g;
          (conv, g) = call (Conv2D 16 (3, 3) ''same'' 1 (1 / 10000)) [inputs'] g;
          (bn, g) = call BatchNormalization [conv] g;
          (act1, g) = call (Activation ''relu'') [bn] g;
          (act1, g) = for_range 3 (conv_block 16) act1 g;
          (act1, g) = downsampling 32 act1 g;
          (act1, g) = for_range 2 (conv_block 32) act1 g;
          (act1, g) = downsampling 64 act1 g;
          (act1, g) = for_range 2 (conv_block 64) act1 g;
          (gap, g) = call GlobalAveragePooling2D [act1] g;
          (bn, g) = call BatchNormalization [gap] g;
          (final_dense', g) = call (Dense N) [bn] g;
          (softmax', g) = call (Activation ''softmax'') [final_dense'] g
      in \<lparr>graph = g, inputs = inputs', final_dense = final_dense', softmax = softmax'\<rparr>)"

text \<open>
  The shape of each layer's output, modelled after Keras: \<open>conv_output_length\<close> with
  padding \<open>same\<close> or \<open>valid\<close>, and the elementwise rule of the merge layers, under which two
  dimensions fit when they are equal or one of them is 1. Keras computes the shape when
  the layer is called and raises ValueError at that call when the shapes do not fit;
  here \<open>output_shapes\<close> goes through the nodes of a graph in the order of the calls and
  gives for each node its shape or the error.
\<close>

definition conv_output_length :: "nat \<Rightarrow> nat \<Rightarrow> string \<Rightarrow> nat \<Rightarrow> py_error + nat" where
  "conv_output_length input_length filter_size padding stride =
     (if stride = 0 then Inl ValueError
      else if padding = ''same'' then Inr ((input_length + stride - 1) div stride)
      else if padding = ''valid'' \<and> filter_size \<le> input_length + 1
        then Inr ((input_length + 1 - filter_size + stride - 1) div stride)
      else Inl ValueError)"

fun elemwise_dims :: "(nat \<times> nat) list \<Rightarrow> py_error + shape" where
  "elemwise_dims [] = Inr []"
| "elemwise_dims ((i, j) # ds) =
     (case elemwise_dims ds of
        Inl e \<Rightarrow> Inl e
      | Inr s \<Rightarrow>
          (if i = 1 then Inr (j # s)
           else if j = 1 then Inr (i # s)
           else if i \<noteq> j then Inl ValueError
           else Inr (i # s)))"

function elemwise_op_output_shape :: "shape \<Rightarrow> shape \<Rightarrow> py_error + shape" where
  "elemwise_op_output_shape shape1 shape2 =
     (if length shape1 < length shape2 then elemwise_op_output_shape shape2 shape1
      else if shape2 = [] then Inr shape1
      else (case elemwise_dims (zip (drop (length shape1 - length shape2) shape1) shape2) of
              Inl e \<Rightarrow> Inl e
            | Inr s \<Rightarrow> Inr (take (length shape1 - length shape2) shape1 @ s)))"
  by pat_completeness auto
termination
  by (relation "measure (\<lambda>(shape1, shape2). if length shape1 < length shape2 then 1 else 0)") auto

declare elemwise_op_output_shape.simps [simp del]

definition compute_output_shape :: "layer \<Rightarrow> shape list \<Rightarrow> py_error + shape" where
  "compute_output_shape l ss =
     (case l of
        Input s \<Rightarrow> (case ss of [] \<Rightarrow> Inr s | _ \<Rightarrow> Inl ValueError)
      | Conv2D filters kernel_size padding strides l2 \<Rightarrow>
          (case ss of
             [[rows, cols, c]] \<Rightarrow>
               (case conv_output_length rows (fst kernel_size) padding strides of
                  Inl e \<Rightarrow> Inl e
                | Inr new_rows \<Rightarrow>
                    (case conv_output_length cols (snd kernel_size) padding strides of
                       Inl e \<Rightarrow> Inl e
                     | Inr new_cols \<Rightarrow> Inr [new_rows, new_cols, filters]))
           | _ \<Rightarrow> Inl ValueError)
      | BatchNormalization \<Rightarrow> (case ss of [s] \<Rightarrow> Inr s | _ \<Rightarrow> Inl ValueError)
      | Activation a \<Rightarrow> (case ss of [s] \<Rightarrow> Inr s | _ \<Rightarrow> Inl ValueError)
      | Add \<Rightarrow>
          (case ss of
             [shape1, shape2] \<Rightarrow> elemwise_op_output_shape shape1 shape2
           | _ \<Rightarrow> Inl ValueError)
      | GlobalAveragePooling2D \<Rightarrow>
          (case ss of [[rows, cols, c]] \<Rightarrow> Inr [c] | _ \<Rightarrow> Inl ValueError)
      | Dense units \<Rightarrow>
          (case ss of
             [s] \<Rightarrow> if s = [] then Inl ValueError else Inr (butlast s @ [units])
           | _ \<Rightarrow> Inl ValueError))"

fun input_shapes :: "(py_error + shape) list \<Rightarrow> tensor list \<Rightarrow> py_error + shape list" where
  "input_shapes known [] = Inr []"
| "input_shapes known (t # ts) =
     (if t < length known
      then (case known ! t of
              Inl e \<Rightarrow> Inl e
            | Inr s \<Rightarrow> (case input_shapes known ts of Inl e \<Rightarrow> Inl e | Inr ss \<Rightarrow> Inr (s # ss)))
      else Inl IndexError)"

fun shapes_from :: "(py_error + shape) list \<Rightarrow> graph \<Rightarrow> (py_error + shape) list" where
  "shapes_from known [] = known"
| "shapes_from known ((l, ins) # g) =
     shapes_from
       (known @ [case input_shapes known ins of
                   Inl e \<Rightarrow> Inl e
                 | Inr ss \<Rightarrow> compute_output_shape l ss]) g"

definition output_shapes :: "graph \<Rightarrow> (py_error + shape) list" where
  "output_shapes g = shapes_from [] g"

definition shape_of :: "graph \<Rightarrow> tensor \<Rightarrow> py_error + shape" where
  "shape_of g t = (if t < length g then output_shapes g ! t else Inl IndexError)"

text \<open>
  Reading a graph: the inputs of the \<open>Add\<close> nodes, the layers that consume a tensor,
  and the way back from the second operand of an addition through the five layers of
  the branch (batch normalisation, convolution, ReLU, batch normalisation, convolution)
  to the tensor the branch starts from.
\<close>

definition adds :: "graph \<Rightarrow> tensor list list" where
  "adds g = map snd (filter (\<lambda>n. fst n = Add) g)"

definition add_outputs :: "graph \<Rightarrow> tensor list" where
  "add_outputs g = filter (\<lambda>t. fst (g ! t) = Add) [0..<length g]"

definition consumers :: "graph \<Rightarrow> tensor \<Rightarrow> layer list" where
  "consumers g t = map fst (filter (\<lambda>n. t \<in> set (snd n)) g)"

fun is_conv :: "layer \<Rightarrow> bool" where
  "is_conv (Conv2D filters kernel_size padding strides l2) = True"
| "is_conv l = False"

definition through :: "(layer \<Rightarrow> bool) \<Rightarrow> graph \<Rightarrow> tensor \<Rightarrow> tensor option" where
  "through kind g t =
     (if t < length g
      then (case g ! t of
              (l, [x]) \<Rightarrow> if kind l then Some x else None
            | _ \<Rightarrow> None)
      else None)"

definition branch_input :: "graph \<Rightarrow> tensor \<Rightarrow> tensor option" where
  "branch_input g bn =
     (case through (\<lambda>l. l = BatchNormalization) g bn of
        None \<Rightarrow> None
      | Some conv2 \<Rightarrow>
     (case through is_conv g conv2 of
        None \<Rightarrow> None
      | Some act \<Rightarrow>
     (case through (\<lambda>l. l = Activation ''relu'') g act of
        None \<Rightarrow> None
      | Some bn1 \<Rightarrow>
     (case through (\<lambda>l. l = BatchNormalization) g bn1 of
        None \<Rightarrow> None
      | Some conv1 \<Rightarrow> through is_conv g conv1))))"

text \<open>
  How an addition gets its first operand: \<open>Identity\<close> when it is the very tensor the
  branch starts from, \<open>Projection\<close> when it is a convolution with a 1x1 kernel and
  stride 2 of that tensor.
\<close>

datatype skip_connection = Identity | Projection

fun is_strided_1x1 :: "layer \<Rightarrow> bool" where
  "is_strided_1x1 (Conv2D filters kernel_size padding strides l2) =
     (kernel_size = (1, 1) \<and> strides = 2)"
| "is_strided_1x1 l = False"

definition skip_connection :: "graph \<Rightarrow> tensor \<Rightarrow> skip_connection option" where
  "skip_connection g t =
     (if t < length g
      then (case g ! t of
              (Add, [s, bn]) \<Rightarrow>
                (case branch_input g bn of
                   None \<Rightarrow> None
                 | Some x \<Rightarrow>
                     if s = x then Some Identity
                     else if through is_strided_1x1 g s = Some x then Some Projection
                     else None)
            | _ \<Rightarrow> None)
      else None)"

subsection \<open>Cell In[ ]: the learning-rate schedule\<close>

text \<open>
  What the script prints is kept as a list of events; \<open>lr_schedule\<close> appends the
  line it prints and returns the learning rate.
\<close>

datatype printed = Learning_rate real

definition lr_schedule :: "int \<Rightarrow> printed list \<Rightarrow> real \<times> printed list" where
  "lr_schedule epoch out =
     (let lr = 1 / 1000;
          lr = (if epoch > 60 then lr * (1 / 1000) else lr);
          out = out @ [Learning_rate lr]
      in (lr, out))"

subsection \<open>Cells In[17] and later: compiling and fitting the model\<close>

text \<open>
  The optimiser is \<open>rmsprop(lr=0.001, decay=1e-6)\<close>. What the training of one epoch
  computes is Keras's business and is not modelled: a \<open>history\<close> gives, for each epoch,
  the dictionary of metrics (\<open>loss\<close>, \<open>acc\<close>, \<open>val_loss\<close>, \<open>val_acc\<close>) that Keras
  hands to the callbacks at the end of that epoch. The state outside the model's weights is
  the learning rate of the optimiser, what has been printed, and the files written, each
  with the epoch it was written in.
\<close>

type_synonym logs = "string \<Rightarrow> real option"

datatype written = Save_model string | Save_weights string

record world =
  lr :: real
  stdout :: "printed list"
  writes :: "(nat \<times> written) list"

text \<open>
  \<open>kc.ModelCheckpoint\<close>, a class of Keras, modelled after its implementation (Keras 2.2):
  the arguments of the constructor (\<open>path\<close> is its \<open>filepath\<close>), followed by the two
  attributes that change during training. \<open>best = None\<close> stands for the initial value,
  minus or plus infinity, which every value of the metric improves on. At the end of an
  epoch the object counts the epoch, formats the file name, and either saves
  unconditionally or, with \<open>save_best_only\<close>, saves when the monitored metric is in the
  logs and \<open>monitor_op\<close> holds between it and \<open>best\<close>; without \<open>save_weights_only\<close> it
  calls \<open>model.save\<close>, which writes the weights together with the architecture and the
  state of the optimiser. With \<open>mode = 'auto'\<close> the metric is maximised when its name
  contains \<open>acc\<close> or starts with \<open>fmeasure\<close>. The messages that \<open>verbose\<close> turns on are
  left out.
\<close>

record model_checkpoint =
  path :: string
  monitor :: string
  verbose :: nat
  save_best_only :: bool
  save_weights_only :: bool
  mode :: string
  period :: nat
  best :: "real option"
  epochs_since_last_save :: nat

definition maximise :: "model_checkpoint \<Rightarrow> bool" where
  "maximise c =
     (if mode c = ''min'' then False
      else if mode c = ''max'' then True
      else sublist ''acc'' (monitor c) \<or> prefix ''fmeasure'' (monitor c))"

definition monitor_op :: "model_checkpoint \<Rightarrow> real \<Rightarrow> real option \<Rightarrow> bool" where
  "monitor_op c current b =
     (case b of
        None \<Rightarrow> True
      | Some b' \<Rightarrow> if maximise c then current > b' else current < b')"

text \<open>
  \<open>filepath.format(epoch=epoch + 1, **logs)\<close>: a template without braces has no
  replacement field and is returned as it is. Templates with braces are outside this
  model (\<open>None\<close>).
\<close>

definition format_filepath :: "string \<Rightarrow> nat \<Rightarrow> logs \<Rightarrow> string option" where
  "format_filepath template epoch kwargs =
     (if CHR ''{'' \<in> set template \<or> CHR ''}'' \<in> set template then None else Some template)"

definition save :: "model_checkpoint \<Rightarrow> string \<Rightarrow> nat \<Rightarrow> world \<Rightarrow> world" where
  "save c file epoch w =
     w\<lparr>writes := writes w @
          [(epoch, if save_weights_only c then Save_weights file else Save_model file)]\<rparr>"

definition checkpoint_on_epoch_end ::
    "model_checkpoint \<Rightarrow> nat \<Rightarrow> logs \<Rightarrow> world \<Rightarrow> (model_checkpoint \<times> world) option" where
  "checkpoint_on_epoch_end c epoch epoch_logs w =
     (let c = c\<lparr>epochs_since_last_save := epochs_since_last_save c + 1\<rparr>
      in if epochs_since_last_save c \<ge> period c
         then (let c = c\<lparr>epochs_since_last_save := 0\<rparr>
               in case format_filepath (path c) (epoch + 1) epoch_logs of
                    None \<Rightarrow> None
                  | Some file \<Rightarrow>
                      if save_best_only c
                      then (case epoch_logs (monitor c) of
                              None \<Rightarrow> Some (c, w)
                            | Some current \<Rightarrow>
                                if monitor_op c current (best c)
                                then Some (c\<lparr>best := Some current\<rparr>, save c file epoch w)
                                else Some (c, w))
                      else Some (c, save c file epoch w))
         else Some (c, w))"

text \<open>
  \<open>kc.LearningRateScheduler\<close>, modelled after its implementation: at the beginning of an
  epoch it calls the schedule with the epoch and sets the learning rate of the optimiser to
  the result; at the end of an epoch it adds the learning rate to the logs.
\<close>

datatype callback =
    ModelCheckpoint model_checkpoint
  | LearningRateScheduler "int \<Rightarrow> printed list \<Rightarrow> real \<times> printed list"

fun on_epoch_begin :: "callback \<Rightarrow> nat \<Rightarrow> world \<Rightarrow> world" where
  "on_epoch_begin (ModelCheckpoint c) epoch w = w"
| "on_epoch_begin (LearningRateScheduler schedule) epoch w =
     (case schedule (int epoch) (stdout w) of (new_lr, out) \<Rightarrow> w\<lparr>lr := new_lr, stdout := out\<rparr>)"

fun on_epoch_end :: "callback \<Rightarrow> nat \<Rightarrow> logs \<Rightarrow> world \<Rightarrow> (callback \<times> logs \<times> world) option" where
  "on_epoch_end (ModelCheckpoint c) epoch epoch_logs w =
     (case checkpoint_on_epoch_end c epoch epoch_logs w of
        None \<Rightarrow> None
      | Some (c', w') \<Rightarrow> Some (ModelCheckpoint c', epoch_logs, w'))"
| "on_epoch_end (LearningRateScheduler schedule) epoch epoch_logs w =
     Some (LearningRateScheduler schedule, epoch_logs(''lr'' \<mapsto> lr w), w)"

text \<open>The callbacks of a \<open>fit\<close> call are run in the order of the list.\<close>

fun callbacks_on_epoch_begin :: "callback list \<Rightarrow> nat \<Rightarrow> world \<Rightarrow> world" where
  "callbacks_on_epoch_begin [] epoch w = w"
| "callbacks_on_epoch_begin (cb # cbs) epoch w =
     callbacks_on_epoch_begin cbs epoch (on_epoch_begin cb epoch w)"

fun callbacks_on_epoch_end ::
    "callback list \<Rightarrow> nat \<Rightarrow> logs \<Rightarrow> world \<Rightarrow> (callback list \<times> world) option" where
  "callbacks_on_epoch_end [] epoch epoch_logs w = Some ([], w)"
| "callbacks_on_epoch_end (cb # cbs) epoch epoch_logs w =
     (case on_epoch_end cb epoch epoch_logs w of
        None \<Rightarrow> None
      | Some (cb', epoch_logs', w') \<Rightarrow>
          (case callbacks_on_epoch_end cbs epoch epoch_logs' w' of
             None \<Rightarrow> None
           | Some (cbs', w'') \<Rightarrow> Some (cb' # cbs', w'')))"

text \<open>
  \<open>model.fit\<close>: for each epoch in \<open>range(epochs)\<close>, the callbacks' \<open>on_epoch_begin\<close>, the
  training of the epoch, and the callbacks' \<open>on_epoch_end\<close> with the logs of the epoch.
  The arguments kept are those that are not data.
\<close>

record fit_args =
  batch_size :: nat
  epochs :: nat
  shuffle :: bool
  callbacks :: "callback list"

fun fit_loop ::
    "nat list \<Rightarrow> (nat \<Rightarrow> logs) \<Rightarrow> callback list \<Rightarrow> world \<Rightarrow> (callback list \<times> world) option" where
  "fit_loop [] history cbs w = Some (cbs, w)"
| "fit_loop (epoch # rest) history cbs w =
     (case callbacks_on_epoch_end cbs epoch (history epoch) (callbacks_on_epoch_begin cbs epoch w) of
        None \<Rightarrow> None
      | Some (cbs', w') \<Rightarrow> fit_loop rest history cbs' w')"

definition fit :: "fit_args \<Rightarrow> (nat \<Rightarrow> logs) \<Rightarrow> world \<Rightarrow> (callback list \<times> world) option" where
  "fit a history w = fit_loop [0..<epochs a] history (callbacks a) w"

text \<open>
  The script: the callbacks it creates (for \<open>checkpoint\<close>, the four arguments the script
  passes and Keras's defaults for the others), its two calls of \<open>model.fit\<close> in the order
  of the cells (the first, in cell In[17], passes no callbacks), and the run of both.
\<close>

definition filepath :: string where
  "filepath = ''./checkpoints''"

definition checkpoint_object :: model_checkpoint where
  "checkpoint_object =
     \<lparr>path = filepath, monitor = ''val_acc'', verbose = 1, save_best_only = True,
      save_weights_only = False, mode = ''auto'', period = 1,
      best = None, epochs_since_last_save = 0\<rparr>"

definition checkpoint :: callback where
  "checkpoint = ModelCheckpoint checkpoint_object"

definition lr_scheduler :: callback where
  "lr_scheduler = LearningRateScheduler lr_schedule"

definition first_fit :: fit_args where
  "first_fit = \<lparr>batch_size = 128, epochs = 100, shuffle = True, callbacks = []\<rparr>"

definition second_fit :: fit_args where
  "second_fit =
     \<lparr>batch_size = 128, epochs = 100, shuffle = True, callbacks = [checkpoint, lr_scheduler]\<rparr>"

definition fit_calls :: "fit_args list" where
  "fit_calls = [first_fit, second_fit]"

definition training :: "(nat \<Rightarrow> nat \<Rightarrow> logs) \<Rightarrow> world option" where
  "training history =
     (let w = \<lparr>lr = 1 / 1000, stdout = [], writes = []\<rparr>
      in case fit first_fit (history 0) w of
           None \<Rightarrow> None
         | Some (cbs, w') \<Rightarrow>
             (case fit second_fit (history 1) w' of
                None \<Rightarrow> None
              | Some (cbs', w'') \<Rightarrow> Some w''))"

text \<open>
  For stating what the checkpoint does over a run: the best of the first \<open>n\<close> values of
  a metric \<open>v\<close> when larger is better (\<open>None\<close> before the first value), and whether
  the value at epoch \<open>k\<close> improves on every earlier value.
\<close>

fun best_upto :: "(nat \<Rightarrow> real) \<Rightarrow> nat \<Rightarrow> real option" where
  "best_upto v 0 = None"
| "best_upto v (Suc n) =
     (case best_upto v n of
        None \<Rightarrow> Some (v n)
      | Some b \<Rightarrow> if b < v n then Some (v n) else Some b)"

definition improves :: "(nat \<Rightarrow> real) \<Rightarrow> nat \<Rightarrow> bool" where
  "improves v k = (\<forall>j < k. v j < v k)"

section \<open>Properties\<close>

subsection \<open>The graph the script builds\<close>

text \<open>
  The 73 nodes of the graph in the order of the calls. Tensor 0 is \<open>inputs\<close>; tensors 3,
  10, 17, 24, 32, 39, 46, 54, 61 and 68 are the successive values of \<open>act1\<close>.
\<close>

lemma build_graph:
  "graph (build input_shape) =
     [(Input input_shape, []), (Conv2D 16 (3, 3) ''same'' 1 (1 / 10000), [0]),
      (BatchNormalization, [1]), (Activation ''relu'', [2]),
      (Conv2D 16 (3, 3) ''same'' 1 (1 / 10000), [3]), (BatchNormalization, [4]),
      (Activation ''relu'', [5]), (Conv2D 16 (3, 3) ''same'' 1 (1 / 10000), [6]),
      (BatchNormalization, [7]), (Add, [3, 8]), (Activation ''relu'', [9]),
      (Conv2D 16 (3, 3) ''same'' 1 (1 / 10000), [10]), (BatchNormalization, [11]),
      (Activation ''relu'', [12]), (Conv2D 16 (3, 3) ''same'' 1 (1 / 10000), [13]),
      (BatchNormalization, [14]), (Add, [10, 15]), (Activation ''relu'', [16]),
      (Conv2D 16 (3, 3) ''same'' 1 (1 / 10000), [17]), (BatchNormalization, [18]),
      (Activation ''relu'', [19]), (Conv2D 16 (3, 3) ''same'' 1 (1 / 10000), [20]),
      (BatchNormalization, [21]), (Add, [17, 22]), (Activation ''relu'', [23]),
      (Conv2D 32 (3, 3) ''same'' 2 (1 / 10000), [24]), (BatchNormalization, [25]),
      (Activation ''relu'', [26]), (Conv2D 32 (3, 3) ''same'' 1 (1 / 10000), [27]),
      (BatchNormalization, [28]), (Conv2D 32 (1, 1) ''same'' 2 (1 / 10000), [24]),
      (Add, [30, 29]), (Activation ''relu'', [31]),
      (Conv2D 32 (3, 3) ''same'' 1 (1 / 10000), [32]), (BatchNormalization, [33]),
      (Activation ''relu'', [34]), (Conv2D 32 (3, 3) ''same'' 1 (1 / 10000), [35]),
      (BatchNormalization, [36]), (Add, [32, 37]), (Activation ''relu'', [38]),
      (Conv2D 32 (3, 3) ''same'' 1 (1 / 10000), [39]), (BatchNormalization, [40]),
      (Activation ''relu'', [41]), (Conv2D 32 (3, 3) ''same'' 1 (1 / 10000), [42]),
      (BatchNormalization, [43]), (Add, [39, 44]), (Activation ''relu'', [45]),
      (Conv2D 64 (3, 3) ''same'' 2 (1 / 10000), [46]), (BatchNormalization, [47]),
      (Activation ''relu'', [48]), (Conv2D 64 (3, 3) ''same'' 1 (1 / 10000), [49]),
      (BatchNormalization, [50]), (Conv2D 64 (1, 1) ''same'' 2 (1 / 10000), [46]),
      (Add, [52, 51]), (Activation ''relu'', [53]),
      (Conv2D 64 (3, 3) ''same'' 1 (1 / 10000), [54]), (BatchNormalization, [55]),
      (Activation ''relu'', [56]), (Conv2D 64 (3, 3) ''same'' 1 (1 / 10000), [57]),
      (BatchNormalization, [58]), (Add, [54, 59]), (Activation ''relu'', [60]),
      (Conv2D 64 (3, 3) ''same'' 1 (1 / 10000), [61]), (BatchNormalization, [62]),
      (Activation ''relu'', [63]), (Conv2D 64 (3, 3) ''same'' 1 (1 / 10000), [64]),
      (BatchNormalization, [65]), (Add, [61, 66]), (Activation ''relu'', [67]),
      (GlobalAveragePooling2D, [68]), (BatchNormalization, [69]), (Dense 10, [70]),
      (Activation ''softmax'', [71])]"
  by (simp add: build_def call_def conv_block_def downsampling_def Let_def
      numeral_3_eq_3 numeral_2_eq_2 N_def labels_def)

lemma build_tensors:
  "inputs (build input_shape) = 0 \<and> final_dense (build input_shape) = 71
     \<and> softmax (build input_shape) = 72"
  by (simp add: build_def call_def conv_block_def downsampling_def Let_def
      numeral_3_eq_3 numeral_2_eq_2)

lemma length_build: "length (graph (build input_shape)) = 73"
  by (simp add: build_graph)

lemma adds_build:
  "adds (graph (build input_shape)) =
     [[3, 8], [10, 15], [17, 22], [30, 29], [32, 37], [39, 44], [52, 51], [54, 59], [61, 66]]"
  by (simp add: adds_def build_graph)

lemma add_outputs_build:
  "add_outputs (graph (build input_shape)) = [9, 16, 23, 31, 38, 45, 53, 60, 67]"
  unfolding add_outputs_def build_graph by code_simp

subsection \<open>Skip connections\<close>

text \<open>
  Claim C1, as the code has it. The graph has nine additions. Each adds the output of a
  branch of two convolutions with batch normalisation to a second tensor, and the sum is
  consumed by one layer only, a ReLU activation: the addition comes before the activation.
  In the seven blocks of the three loops the second tensor is the tensor the branch starts
  from, the input of the block. In the two downsampling sections (the fourth and the
  seventh addition) it is a 1x1 convolution with stride 2 of the input of the block.
\<close>

theorem skip_connections:
  "map (skip_connection (graph (build input_shape))) (add_outputs (graph (build input_shape))) =
     [Some Identity, Some Identity, Some Identity, Some Projection, Some Identity, Some Identity,
      Some Projection, Some Identity, Some Identity]
   \<and> (\<forall>t \<in> set (add_outputs (graph (build input_shape))).
        consumers (graph (build input_shape)) t = [Activation ''relu''])"
  unfolding add_outputs_build unfolding build_graph
  by (simp add: skip_connection_def branch_input_def through_def consumers_def)

theorem skip_connections_witness:
  "31 \<in> set (add_outputs (graph (build [32, 32, 3])))
     \<and> consumers (graph (build [32, 32, 3])) 31 = [Activation ''relu'']
     \<and> skip_connection (graph (build [32, 32, 3])) 31 = Some Projection"
proof -
  have mem: "31 \<in> set (add_outputs (graph (build [32, 32, 3])))"
    by (simp add: add_outputs_build)
  with skip_connections [of "[32, 32, 3]"]
  have "consumers (graph (build [32, 32, 3])) 31 = [Activation ''relu'']"
    by blast
  moreover from skip_connections [of "[32, 32, 3]"]
  have "skip_connection (graph (build [32, 32, 3])) 31 = Some Projection"
    by (simp add: add_outputs_build)
  ultimately show ?thesis using mem by simp
qed

text \<open>
  Claim C1, as it is stated, says that every block adds its own input tensor to the output
  of its branch. The first downsampling section (lines 91 to 101) does not: tensor 31 is
  the sum of tensors 30 and 29; the branch that ends in tensor 29 starts from tensor 24,
  the input of the block; and tensor 30 is not tensor 24 but \<open>act1_downsampled\<close>, the
  convolution of tensor 24 with 32 filters, a 1x1 kernel and stride 2.
\<close>

theorem downsampling_skip_counterexample:
  "31 \<in> set (add_outputs (graph (build [32, 32, 3])))
     \<and> graph (build [32, 32, 3]) ! 31 = (Add, [30, 29])
     \<and> branch_input (graph (build [32, 32, 3])) 29 = Some 24
     \<and> graph (build [32, 32, 3]) ! 30 = (Conv2D 32 (1, 1) ''same'' 2 (1 / 10000), [24])
     \<and> skip_connection (graph (build [32, 32, 3])) 31 \<noteq> Some Identity"
  unfolding add_outputs_build unfolding build_graph
  by (simp add: skip_connection_def branch_input_def through_def)

subsection \<open>Shapes\<close>

lemma elemwise_dims_same: "elemwise_dims (zip s s) = Inr s"
  by (induction s) simp_all

lemma elemwise_op_output_shape_same: "elemwise_op_output_shape s s = Inr s"
  by (simp add: elemwise_op_output_shape.simps [of s s] elemwise_dims_same)

lemma conv_output_length_same_1: "conv_output_length n k ''same'' (Suc 0) = Inr n"
  by (simp add: conv_output_length_def)

lemma conv_output_length_same_2: "conv_output_length n k ''same'' 2 = Inr ((n + 1) div 2)"
  by (simp add: conv_output_length_def)

text \<open>
  The shape of every tensor of the graph, for an input of any size: no call raises, the
  first downsampling section halves rows and columns (rounding up) and the second halves
  them again.
\<close>

lemma output_shapes_build:
  "output_shapes (graph (build [rows, cols, channels])) =
     [Inr [rows, cols, channels], Inr [rows, cols, 16], Inr [rows, cols, 16],
      Inr [rows, cols, 16], Inr [rows, cols, 16], Inr [rows, cols, 16], Inr [rows, cols, 16],
      Inr [rows, cols, 16], Inr [rows, cols, 16], Inr [rows, cols, 16], Inr [rows, cols, 16],
      Inr [rows, cols, 16], Inr [rows, cols, 16], Inr [rows, cols, 16], Inr [rows, cols, 16],
      Inr [rows, cols, 16], Inr [rows, cols, 16], Inr [rows, cols, 16], Inr [rows, cols, 16],
      Inr [rows, cols, 16], Inr [rows, cols, 16], Inr [rows, cols, 16], Inr [rows, cols, 16],
      Inr [rows, cols, 16], Inr [rows, cols, 16], Inr [(rows + 1) div 2, (cols + 1) div 2, 32],
      Inr [(rows + 1) div 2, (cols + 1) div 2, 32], Inr [(rows + 1) div 2, (cols + 1) div 2, 32],
      Inr [(rows + 1) div 2, (cols + 1) div 2, 32], Inr [(rows + 1) div 2, (cols + 1) div 2, 32],
      Inr [(rows + 1) div 2, (cols + 1) div 2, 32], Inr [(rows + 1) div 2, (cols + 1) div 2, 32],
      Inr [(rows + 1) div 2, (cols + 1) div 2, 32], Inr [(rows + 1) div 2, (cols + 1) div 2, 32],
      Inr [(rows + 1) div 2, (cols + 1) div 2, 32], Inr [(rows + 1) div 2, (cols + 1) div 2, 32],
      Inr [(rows + 1) div 2, (cols + 1) div 2, 32], Inr [(rows + 1) div 2, (cols + 1) div 2, 32],
      Inr [(rows + 1) div 2, (cols + 1) div 2, 32], Inr [(rows + 1) div 2, (cols + 1) div 2, 32],
      Inr [(rows + 1) div 2, (cols + 1) div 2, 32], Inr [(rows + 1) div 2, (cols + 1) div 2, 32],
      Inr [(rows + 1) div 2, (cols + 1) div 2, 32], Inr [(rows + 1) div 2, (cols + 1) div 2, 32],
      Inr [(rows + 1) div 2, (cols + 1) div 2, 32], Inr [(rows + 1) div 2, (cols + 1) div 2, 32],
      Inr [(rows + 1) div 2, (cols + 1) div 2, 32],
      Inr [((rows + 1) div 2 + 1) div 2, ((cols + 1) div 2 + 1) div 2, 64],
      Inr [((rows + 1) div 2 + 1) div 2, ((cols + 1) div 2 + 1) div 2, 64],
      Inr [((rows + 1) div 2 + 1) div 2, ((cols + 1) div 2 + 1) div 2, 64],
      Inr [((rows + 1) div 2 + 1) div 2, ((cols + 1) div 2 + 1) div 2, 64],
      Inr [((rows + 1) div 2 + 1) div 2, ((cols + 1) div 2 + 1) div 2, 64],
      Inr [((rows + 1) div 2 + 1) div 2, ((cols + 1) div 2 + 1) div 2, 64],
      Inr [((rows + 1) div 2 + 1) div 2, ((cols + 1) div 2 + 1) div 2, 64],
      Inr [((rows + 1) div 2 + 1) div 2, ((cols + 1) div 2 + 1) div 2, 64],
      Inr [((rows + 1) div 2 + 1) div 2, ((cols + 1) div 2 + 1) div 2, 64],
      Inr [((rows + 1) div 2 + 1) div 2, ((cols + 1) div 2 + 1) div 2, 64],
      Inr [((rows + 1) div 2 + 1) div 2, ((cols + 1) div 2 + 1) div 2, 64],
      Inr [((rows + 1) div 2 + 1) div 2, ((cols + 1) div 2 + 1) div 2, 64],
      Inr [((rows + 1) div 2 + 1) div 2, ((cols + 1) div 2 + 1) div 2, 64],
      Inr [((rows + 1) div 2 + 1) div 2, ((cols + 1) div 2 + 1) div 2, 64],
      Inr [((rows + 1) div 2 + 1) div 2, ((cols + 1) div 2 + 1) div 2, 64],
      Inr [((rows + 1) div 2 + 1) div 2, ((cols + 1) div 2 + 1) div 2, 64],
      Inr [((rows + 1) div 2 + 1) div 2, ((cols + 1) div 2 + 1) div 2, 64],
      Inr [((rows + 1) div 2 + 1) div 2, ((cols + 1) div 2 + 1) div 2, 64],
      Inr [((rows + 1) div 2 + 1) div 2, ((cols + 1) div 2 + 1) div 2, 64],
      Inr [((rows + 1) div 2 + 1) div 2, ((cols + 1) div 2 + 1) div 2, 64],
      Inr [((rows + 1) div 2 + 1) div 2, ((cols + 1) div 2 + 1) div 2, 64],
      Inr [((rows + 1) div 2 + 1) div 2, ((cols + 1) div 2 + 1) div 2, 64], Inr [64], Inr [64],
      Inr [10], Inr [10]]"
  unfolding build_graph
  by (simp add: output_shapes_def compute_output_shape_def conv_output_length_same_1
      conv_output_length_same_2 elemwise_op_output_shape_same)

text \<open>
  Claim C10. For an input image of any size, both operands of every \<open>kl.add\<close> of the graph
  have a shape and it is the same shape. The nine additions, in the order of the script,
  add tensors of shape rows x cols x 16 (three times), then of half the rows and columns
  with 32 channels (the downsampling section, whose skip path is the 1x1 convolution with
  stride 2 and 32 filters, and two blocks), then of a quarter of the rows and columns with
  64 channels (likewise).
\<close>

theorem add_operands_same_shape:
  "(\<forall>ins \<in> set (adds (graph (build [rows, cols, channels]))).
      \<exists>a b s. ins = [a, b]
        \<and> shape_of (graph (build [rows, cols, channels])) a = Inr s
        \<and> shape_of (graph (build [rows, cols, channels])) b = Inr s)
   \<and> map (map (shape_of (graph (build [rows, cols, channels]))))
       (adds (graph (build [rows, cols, channels]))) =
     [[Inr [rows, cols, 16], Inr [rows, cols, 16]],
      [Inr [rows, cols, 16], Inr [rows, cols, 16]],
      [Inr [rows, cols, 16], Inr [rows, cols, 16]],
      [Inr [(rows + 1) div 2, (cols + 1) div 2, 32], Inr [(rows + 1) div 2, (cols + 1) div 2, 32]],
      [Inr [(rows + 1) div 2, (cols + 1) div 2, 32], Inr [(rows + 1) div 2, (cols + 1) div 2, 32]],
      [Inr [(rows + 1) div 2, (cols + 1) div 2, 32], Inr [(rows + 1) div 2, (cols + 1) div 2, 32]],
      [Inr [((rows + 1) div 2 + 1) div 2, ((cols + 1) div 2 + 1) div 2, 64],
       Inr [((rows + 1) div 2 + 1) div 2, ((cols + 1) div 2 + 1) div 2, 64]],
      [Inr [((rows + 1) div 2 + 1) div 2, ((cols + 1) div 2 + 1) div 2, 64],
       Inr [((rows + 1) div 2 + 1) div 2, ((cols + 1) div 2 + 1) div 2, 64]],
      [Inr [((rows + 1) div 2 + 1) div 2, ((cols + 1) div 2 + 1) div 2, 64],
       Inr [((rows + 1) div 2 + 1) div 2, ((cols + 1) div 2 + 1) div 2, 64]]]"
  by (simp add: adds_build shape_of_def length_build output_shapes_build)

theorem add_operands_same_shape_witness:
  "[30, 29] \<in> set (adds (graph (build [32, 32, 3])))
     \<and> shape_of (graph (build [32, 32, 3])) 30 = shape_of (graph (build [32, 32, 3])) 29
     \<and> shape_of (graph (build [32, 32, 3])) 29 = Inr [16, 16, 32]"
proof -
  have mem: "[30, 29] \<in> set (adds (graph (build [32, 32, 3])))"
    by (simp add: adds_build)
  from add_operands_same_shape [of 32 32 3] mem
  obtain a b s where "[30, 29] = [a, b]"
    and "shape_of (graph (build [32, 32, 3])) a = Inr s"
    and "shape_of (graph (build [32, 32, 3])) b = Inr s"
    by blast
  then have same:
    "shape_of (graph (build [32, 32, 3])) 30 = shape_of (graph (build [32, 32, 3])) 29"
    by simp
  have "shape_of (graph (build [32, 32, 3])) 29 = Inr [16, 16, 32]"
    by (simp add: shape_of_def length_build output_shapes_build)
  with mem same show ?thesis by simp
qed

subsection \<open>The prepared dataset\<close>

lemma unat_pixel: "unat (p :: 8 word) \<le> 255"
  using unsigned_less [of p, where ?'a = nat] by simp

lemma unit_interval: "n \<le> 255 \<Longrightarrow> 0 \<le> real n / 255 \<and> real n / 255 \<le> 1"
  by simp

lemma pixel_range: "0 \<le> real (unat (p :: 8 word)) / 255 \<and> real (unat p) / 255 \<le> 1"
  using unit_interval [OF unat_pixel] .

lemma div255_range: "img \<in> set (div255 x) \<Longrightarrow> v \<in> set img \<Longrightarrow> 0 \<le> v \<and> v \<le> 1"
  using pixel_range by (fastforce simp: div255_def)

lemma prepare_x:
  "prepare d = Inr D \<Longrightarrow> x_train D = div255 (x_train_raw d) \<and> x_test D = div255 (x_test_raw d)"
  by (auto simp: prepare_def Let_def split: sum.splits)

lemma prepare_y:
  "prepare d = Inr D \<Longrightarrow>
     to_categorical (y_train_raw d) N = Inr (y_train D) \<and> to_categorical (y_test_raw d) N = Inr (y_test D)"
  by (auto simp: prepare_def Let_def split: sum.splits)

lemma N_10: "N = 10" by (simp add: N_def labels_def)

lemma assign_ones_rows:
  "length rows = length cs \<Longrightarrow> \<forall>row \<in> set rows. length row = n \<Longrightarrow> \<forall>c \<in> set cs. c < n \<Longrightarrow>
   assign_ones rows cs = Inr (map (\<lambda>(row, c). row[c := 1]) (zip rows cs))"
  by (induction rows cs rule: assign_ones.induct) auto

lemma assign_ones_length:
  "assign_ones rows cs = Inr rows' \<Longrightarrow> map length rows' = map length rows"
  by (induction rows cs arbitrary: rows' rule: assign_ones.induct) (auto split: if_splits sum.splits)

lemma zip_replicate_map:
  "map f (zip (replicate (length ys) r) ys) = map (\<lambda>c. f (r, c)) ys"
  by (induction ys) simp_all

lemma to_categorical_rows:
  assumes "\<forall>c \<in> set ys. c < n" and "0 < n"
  shows "to_categorical ys n = Inr (map (\<lambda>c. (replicate n 0)[c := 1]) ys)"
proof -
  have "assign_ones (replicate (length ys) (replicate n 0)) ys =
      Inr (map (\<lambda>(row, c). row[c := 1]) (zip (replicate (length ys) (replicate n 0)) ys))"
    using assms(1) by (intro assign_ones_rows [where n = n]) simp_all
  then show ?thesis
    using assms(2) by (simp add: to_categorical_def Let_def zip_replicate_map)
qed

lemma to_categorical_width:
  assumes "to_categorical ys n = Inr rows" and "0 < n" and "row \<in> set rows"
  shows "length row = n"
proof -
  from assms(1,2) have "assign_ones (replicate (length ys) (replicate n 0)) ys = Inr rows"
    by (simp add: to_categorical_def Let_def)
  then have "map length rows = map length (replicate (length ys) (replicate n (0::real)))"
    by (rule assign_ones_length)
  then have eq: "map length rows = replicate (length ys) n" by simp
  have "length row \<in> set (map length rows)" using assms(3) by simp
  then have "length row \<in> set (replicate (length ys) n)" by (simp only: eq)
  then show ?thesis by simp
qed

text \<open>
  Claim C6. When the preparation of the data succeeds, \<open>x_train\<close> and \<open>x_test\<close> are the
  loaded training and test images with every \<open>uint8\<close> pixel \<open>p\<close> replaced by \<open>p / 255\<close>:
  they have as many images as the loaded arrays, every image keeps its number of pixels,
  the value at every position is the loaded pixel at this position divided by 255, and
  it lies between 0 and 1.
\<close>

theorem pixels_normalised:
  assumes "prepare d = Inr D"
  shows "x_train D = map (map (\<lambda>p. real (unat p) / 255)) (x_train_raw d)
      \<and> x_test D = map (map (\<lambda>p. real (unat p) / 255)) (x_test_raw d)
      \<and> length (x_train D) = length (x_train_raw d)
      \<and> length (x_test D) = length (x_test_raw d)
      \<and> (\<forall>i < length (x_train_raw d). length (x_train D ! i) = length (x_train_raw d ! i)
            \<and> (\<forall>j < length (x_train_raw d ! i).
                  x_train D ! i ! j = real (unat (x_train_raw d ! i ! j)) / 255
                  \<and> 0 \<le> x_train D ! i ! j \<and> x_train D ! i ! j \<le> 1))
      \<and> (\<forall>i < length (x_test_raw d). length (x_test D ! i) = length (x_test_raw d ! i)
            \<and> (\<forall>j < length (x_test_raw d ! i).
                  x_test D ! i ! j = real (unat (x_test_raw d ! i ! j)) / 255
                  \<and> 0 \<le> x_test D ! i ! j \<and> x_test D ! i ! j \<le> 1))"
proof -
  from prepare_x [OF assms]
  have tr: "x_train D = map (map (\<lambda>p. real (unat p) / 255)) (x_train_raw d)"
    and te: "x_test D = map (map (\<lambda>p. real (unat p) / 255)) (x_test_raw d)"
    by (simp_all only: div255_def)
  have cells: "length (map (map (\<lambda>p. real (unat p) / 255)) x) = length x
      \<and> (\<forall>i < length x. length (map (map (\<lambda>p. real (unat p) / 255)) x ! i) = length (x ! i)
            \<and> (\<forall>j < length (x ! i).
                  map (map (\<lambda>p. real (unat p) / 255)) x ! i ! j = real (unat (x ! i ! j)) / 255
                  \<and> 0 \<le> map (map (\<lambda>p. real (unat p) / 255)) x ! i ! j
                  \<and> map (map (\<lambda>p. real (unat p) / 255)) x ! i ! j \<le> 1))"
    for x :: "8 word list list"
    using pixel_range by simp
  from cells [of "x_train_raw d"] cells [of "x_test_raw d"] show ?thesis
    unfolding tr te by blast
qed

text \<open>
  Claim C7. When every label of the loaded training and test data is below 10, the
  preparation succeeds, and row \<open>i\<close> of \<open>y_train\<close> (of \<open>y_test\<close>) has ten entries: 1 at
  the index that is the \<open>i\<close>-th training (test) label and 0 at every other index.
\<close>

theorem labels_one_hot:
  assumes "\<forall>c \<in> set (y_train_raw d) \<union> set (y_test_raw d). c < 10"
  shows "\<exists>D. prepare d = Inr D
      \<and> length (y_train D) = length (y_train_raw d)
      \<and> length (y_test D) = length (y_test_raw d)
      \<and> (\<forall>i < length (y_train_raw d). length (y_train D ! i) = 10
            \<and> (\<forall>j < 10. y_train D ! i ! j = (if j = y_train_raw d ! i then 1 else 0)))
      \<and> (\<forall>i < length (y_test_raw d). length (y_test D ! i) = 10
            \<and> (\<forall>j < 10. y_test D ! i ! j = (if j = y_test_raw d ! i then 1 else 0)))"
proof -
  have tr: "to_categorical (y_train_raw d) N = Inr (map (\<lambda>c. (replicate 10 0)[c := 1]) (y_train_raw d))"
    using assms by (simp add: N_10 to_categorical_rows)
  have te: "to_categorical (y_test_raw d) N = Inr (map (\<lambda>c. (replicate 10 0)[c := 1]) (y_test_raw d))"
    using assms by (simp add: N_10 to_categorical_rows)
  have cell: "(replicate 10 (0::real))[c := 1] ! j = (if j = c then 1 else 0)" if "j < 10" for c j
    using that by (simp add: nth_list_update)
  let ?D = "\<lparr>x_train = div255 (x_train_raw d),
             y_train = map (\<lambda>c. (replicate 10 0)[c := 1]) (y_train_raw d),
             x_test = div255 (x_test_raw d),
             y_test = map (\<lambda>c. (replicate 10 0)[c := 1]) (y_test_raw d)\<rparr>"
  have "prepare d = Inr ?D"
    by (simp add: prepare_def Let_def tr te)
  moreover have "\<forall>i < length (y_train_raw d). length (y_train ?D ! i) = 10
      \<and> (\<forall>j < 10. y_train ?D ! i ! j = (if j = y_train_raw d ! i then 1 else 0))"
    by (simp add: cell)
  moreover have "\<forall>i < length (y_test_raw d). length (y_test ?D ! i) = 10
      \<and> (\<forall>j < 10. y_test ?D ! i ! j = (if j = y_test_raw d ! i then 1 else 0))"
    by (simp add: cell)
  ultimately show ?thesis
    by (intro exI [of _ ?D]) simp
qed

text \<open>
  Claim C5. There are ten classes: \<open>labels\<close> has ten entries, \<open>N\<close> is 10, every row
  of the converted label arrays has ten entries, and the layer that produces
  \<open>final_dense\<close>, the input of the softmax, is \<open>Dense 10\<close>, whose output has shape [10].
\<close>

theorem ten_classes:
  "length labels = 10 \<and> N = 10
   \<and> (\<forall>D. prepare d = Inr D \<longrightarrow> (\<forall>row \<in> set (y_train D) \<union> set (y_test D). length row = 10))
   \<and> fst (graph (build input_shape) ! final_dense (build input_shape)) = Dense 10
   \<and> shape_of (graph (build [rows, cols, channels])) (final_dense (build [rows, cols, channels]))
       = Inr [10]"
proof -
  have "length row = 10" if "prepare d = Inr D" "row \<in> set (y_train D) \<union> set (y_test D)" for D row
    using prepare_y [OF that(1)] that(2) to_categorical_width [of _ N _ row]
    by (auto simp: N_10)
  moreover have "fst (graph (build input_shape) ! final_dense (build input_shape)) = Dense 10"
    by (simp add: build_tensors build_graph)
  moreover have "shape_of (graph (build [rows, cols, channels]))
      (final_dense (build [rows, cols, channels])) = Inr [10]"
    by (simp add: build_tensors shape_of_def length_build output_shapes_build)
  ultimately show ?thesis
    by (simp add: N_10 labels_def)
qed


lemma to_categorical_example:
  "to_categorical [3] 10 = Inr [[0, 0, 0, 1, 0, 0, 0, 0, 0, 0]]"
  "to_categorical [0] 10 = Inr [[1, 0, 0, 0, 0, 0, 0, 0, 0, 0]]"
  by (simp_all add: to_categorical_def Let_def eval_nat_numeral)

lemma div255_example: "div255 [[0, 255]] = [[0, 1]]" "div255 [[51]] = [[1 / 5]]"
  by (simp_all add: div255_def)

lemma prepare_example:
  "prepare \<lparr>x_train_raw = [[0, 255]], y_train_raw = [3], x_test_raw = [[51]], y_test_raw = [0]\<rparr> =
     Inr \<lparr>x_train = [[0, 1]], y_train = [[0, 0, 0, 1, 0, 0, 0, 0, 0, 0]],
          x_test = [[1 / 5]], y_test = [[1, 0, 0, 0, 0, 0, 0, 0, 0, 0]]\<rparr>"
  by (simp add: prepare_def N_10 Let_def to_categorical_example div255_example)

theorem pixels_normalised_witness:
  "prepare \<lparr>x_train_raw = [[0, 255]], y_train_raw = [3], x_test_raw = [[51]], y_test_raw = [0]\<rparr> =
     Inr \<lparr>x_train = [[0, 1]], y_train = [[0, 0, 0, 1, 0, 0, 0, 0, 0, 0]],
          x_test = [[1 / 5]], y_test = [[1, 0, 0, 0, 0, 0, 0, 0, 0, 0]]\<rparr>
   \<and> (1 :: real) = real (unat (255 :: 8 word)) / 255
   \<and> (1 / 5 :: real) = real (unat (51 :: 8 word)) / 255
   \<and> 0 \<le> (1 / 5 :: real) \<and> (1 / 5 :: real) \<le> 1"
proof -
  let ?d = "\<lparr>x_train_raw = [[0, 255]], y_train_raw = [3], x_test_raw = [[51]], y_test_raw = [0]\<rparr>"
  let ?D = "\<lparr>x_train = [[0, 1]], y_train = [[0, 0, 0, 1, 0, 0, 0, 0, 0, 0]],
          x_test = [[1 / 5]], y_test = [[1, 0, 0, 0, 0, 0, 0, 0, 0, 0 :: real]]\<rparr>"
  have ev: "prepare ?d = Inr ?D" by (rule prepare_example)
  from pixels_normalised [OF ev]
  have tr: "\<forall>i < length (x_train_raw ?d). length (x_train ?D ! i) = length (x_train_raw ?d ! i)
            \<and> (\<forall>j < length (x_train_raw ?d ! i).
                  x_train ?D ! i ! j = real (unat (x_train_raw ?d ! i ! j)) / 255
                  \<and> 0 \<le> x_train ?D ! i ! j \<and> x_train ?D ! i ! j \<le> 1)"
    and te: "\<forall>i < length (x_test_raw ?d). length (x_test ?D ! i) = length (x_test_raw ?d ! i)
            \<and> (\<forall>j < length (x_test_raw ?d ! i).
                  x_test ?D ! i ! j = real (unat (x_test_raw ?d ! i ! j)) / 255
                  \<and> 0 \<le> x_test ?D ! i ! j \<and> x_test ?D ! i ! j \<le> 1)"
    by blast+
  have cell: "x_train ?D ! 0 ! 1 = 1" "x_train_raw ?d ! 0 ! 1 = 255"
      "x_test ?D ! 0 ! 0 = 1 / 5" "x_test_raw ?d ! 0 ! 0 = 51"
    by simp_all
  from tr have "x_train ?D ! 0 ! 1 = real (unat (x_train_raw ?d ! 0 ! 1)) / 255"
    by simp
  then have a: "(1 :: real) = real (unat (255 :: 8 word)) / 255"
    unfolding cell .
  from te have "x_test ?D ! 0 ! 0 = real (unat (x_test_raw ?d ! 0 ! 0)) / 255
      \<and> 0 \<le> x_test ?D ! 0 ! 0 \<and> x_test ?D ! 0 ! 0 \<le> 1"
    by simp
  then have b: "(1 / 5 :: real) = real (unat (51 :: 8 word)) / 255
      \<and> 0 \<le> (1 / 5 :: real) \<and> (1 / 5 :: real) \<le> 1"
    unfolding cell .
  show ?thesis by (rule conjI [OF ev conjI [OF a b]])
qed

theorem labels_one_hot_witness:
  "(3 :: nat) < 10 \<and> (0 :: nat) < 10
   \<and> prepare \<lparr>x_train_raw = [[0, 255]], y_train_raw = [3], x_test_raw = [[51]], y_test_raw = [0]\<rparr> =
     Inr \<lparr>x_train = [[0, 1]], y_train = [[0, 0, 0, 1, 0, 0, 0, 0, 0, 0]],
          x_test = [[1 / 5]], y_test = [[1, 0, 0, 0, 0, 0, 0, 0, 0, 0]]\<rparr>
   \<and> [0, 0, 0, 1, 0, 0, 0, 0, 0, 0 :: real] ! 3 = 1
   \<and> [0, 0, 0, 1, 0, 0, 0, 0, 0, 0 :: real] ! 4 = 0"
proof -
  let ?d = "\<lparr>x_train_raw = [[0, 255]], y_train_raw = [3], x_test_raw = [[51]], y_test_raw = [0]\<rparr>"
  let ?row = "[0, 0, 0, 1, 0, 0, 0, 0, 0, 0 :: real]"
  have hyp: "\<forall>c \<in> set (y_train_raw ?d) \<union> set (y_test_raw ?d). c < 10" by simp
  from labels_one_hot [OF hyp] obtain D where D: "prepare ?d = Inr D"
    and cells: "\<forall>i < length (y_train_raw ?d). length (y_train D ! i) = 10
            \<and> (\<forall>j < 10. y_train D ! i ! j = (if j = y_train_raw ?d ! i then 1 else 0))"
    by blast
  from D have "y_train D = [?row]" by (auto simp: prepare_example)
  with cells have "?row ! 3 = 1" and "?row ! 4 = 0" by simp_all
  then show ?thesis by (simp add: prepare_example)
qed

theorem ten_classes_witness:
  "prepare \<lparr>x_train_raw = [[0, 255]], y_train_raw = [3], x_test_raw = [[51]], y_test_raw = [0]\<rparr> =
     Inr \<lparr>x_train = [[0, 1]], y_train = [[0, 0, 0, 1, 0, 0, 0, 0, 0, 0]],
          x_test = [[1 / 5]], y_test = [[1, 0, 0, 0, 0, 0, 0, 0, 0, 0]]\<rparr>
   \<and> length [0, 0, 0, 1, 0, 0, 0, 0, 0, 0 :: real] = 10"
proof -
  let ?d = "\<lparr>x_train_raw = [[0, 255]], y_train_raw = [3], x_test_raw = [[51]], y_test_raw = [0]\<rparr>"
  let ?D = "\<lparr>x_train = [[0, 1]], y_train = [[0, 0, 0, 1, 0, 0, 0, 0, 0, 0]],
          x_test = [[1 / 5]], y_test = [[1, 0, 0, 0, 0, 0, 0, 0, 0, 0 :: real]]\<rparr>"
  have ev: "prepare ?d = Inr ?D" by (rule prepare_example)
  from ten_classes [of ?d] ev
  have "\<forall>row \<in> set (y_train ?D) \<union> set (y_test ?D). length row = 10"
    by blast
  then have "length [0, 0, 0, 1, 0, 0, 0, 0, 0, 0 :: real] = 10" by simp
  with ev show ?thesis by simp
qed

subsection \<open>The learning-rate schedule\<close>

lemma lr_schedule_value:
  "fst (lr_schedule epoch out) = (if epoch > 60 then 1 / 1000000 else 1 / 1000)"
  by (simp add: lr_schedule_def Let_def)

text \<open>
  Claim C2. The learning rate returned by \<open>lr_schedule\<close> never increases with the epoch:
  for epochs \<open>e1 \<le> e2\<close> the rate at \<open>e2\<close> is at most the rate at \<open>e1\<close>, whatever has been
  printed before either call.
\<close>

theorem lr_schedule_antimono:
  "e1 \<le> e2 \<Longrightarrow> fst (lr_schedule e2 out2) \<le> fst (lr_schedule e1 out1)"
  by (simp add: lr_schedule_value)

theorem lr_schedule_antimono_witness:
  "(60::int) \<le> 61 \<and> fst (lr_schedule 61 []) \<le> fst (lr_schedule 60 [])
     \<and> fst (lr_schedule 61 []) < fst (lr_schedule 60 [])"
proof -
  have le: "(60::int) \<le> 61" by simp
  have "fst (lr_schedule 61 []) \<le> fst (lr_schedule 60 [])"
    using lr_schedule_antimono [OF le, of "[]" "[]"] .
  moreover have "fst (lr_schedule 61 []) < fst (lr_schedule 60 [])"
    by (simp add: lr_schedule_def Let_def)
  ultimately show ?thesis using le by simp
qed

text \<open>
  Claim C9. \<open>lr_schedule\<close> returns one of two values: 1e-3 at every epoch up to and
  including 60, and 1e-6 at every later epoch.
\<close>

theorem lr_schedule_two_values:
  "(epoch \<le> 60 \<longrightarrow> fst (lr_schedule epoch out) = 1 / 1000)
     \<and> (60 < epoch \<longrightarrow> fst (lr_schedule epoch out) = 1 / 1000000)"
  by (simp add: lr_schedule_def Let_def)

theorem lr_schedule_two_values_witness:
  "(60::int) \<le> 60 \<and> fst (lr_schedule 60 []) = 1 / 1000
     \<and> (60::int) < 61 \<and> fst (lr_schedule 61 []) = 1 / 1000000"
  using lr_schedule_two_values [of 60 "[]"] lr_schedule_two_values [of 61 "[]"]
  by simp

subsection \<open>Training with callbacks\<close>

lemma acc_in_val_acc: "sublist ''acc'' ''val_acc''"
  unfolding sublist_def by (rule exI [of _ "''val_''"], rule exI [of _ "[]"]) simp

lemma fit_loop_append:
  "fit_loop (xs @ ys) history cbs w =
     (case fit_loop xs history cbs w of
        None \<Rightarrow> None
      | Some (cbs', w') \<Rightarrow> fit_loop ys history cbs' w')"
  by (induction xs arbitrary: cbs w) (auto split: option.splits)

lemma fit_loop_no_callbacks: "fit_loop es history [] w = Some ([], w)"
  by (induction es) simp_all

lemma checkpoint_step:
  "checkpoint_on_epoch_end (checkpoint_object\<lparr>best := b\<rparr>) epoch lg w =
     (case lg ''val_acc'' of
        None \<Rightarrow> Some (checkpoint_object\<lparr>best := b\<rparr>, w)
      | Some current \<Rightarrow>
          if (case b of None \<Rightarrow> True | Some b' \<Rightarrow> b' < current)
          then Some (checkpoint_object\<lparr>best := Some current\<rparr>,
                     w\<lparr>writes := writes w @ [(epoch, Save_model filepath)]\<rparr>)
          else Some (checkpoint_object\<lparr>best := b\<rparr>, w))"
  by (simp add: checkpoint_on_epoch_end_def checkpoint_object_def Let_def format_filepath_def
      filepath_def monitor_op_def maximise_def acc_in_val_acc save_def split: option.splits)

lemma fit_loop_epoch:
  "fit_loop [epoch] history [ModelCheckpoint (checkpoint_object\<lparr>best := b\<rparr>), lr_scheduler] w =
   (case history epoch ''val_acc'' of
      None \<Rightarrow> Some ([ModelCheckpoint (checkpoint_object\<lparr>best := b\<rparr>), lr_scheduler],
                 on_epoch_begin lr_scheduler epoch w)
    | Some current \<Rightarrow>
        if (case b of None \<Rightarrow> True | Some b' \<Rightarrow> b' < current)
        then Some ([ModelCheckpoint (checkpoint_object\<lparr>best := Some current\<rparr>), lr_scheduler],
               (on_epoch_begin lr_scheduler epoch w)
                 \<lparr>writes := writes (on_epoch_begin lr_scheduler epoch w) @ [(epoch, Save_model filepath)]\<rparr>)
        else Some ([ModelCheckpoint (checkpoint_object\<lparr>best := b\<rparr>), lr_scheduler],
               on_epoch_begin lr_scheduler epoch w))"
  by (simp add: checkpoint_step lr_scheduler_def split: option.splits)

lemma fit_loop_Cons:
  "fit_loop (epoch # rest) history cbs w =
     (case fit_loop [epoch] history cbs w of
        None \<Rightarrow> None
      | Some (cbs', w') \<Rightarrow> fit_loop rest history cbs' w')"
  using fit_loop_append [of "[epoch]" rest] by simp

lemma writes_on_epoch_begin: "writes (on_epoch_begin lr_scheduler epoch w) = writes w"
  by (simp add: lr_scheduler_def split: prod.splits)

lemma best_upto_None: "best_upto v n = None \<longleftrightarrow> n = 0"
  by (induction n) (auto split: option.splits)

lemma best_upto_Some:
  "best_upto v n = Some b \<Longrightarrow> (\<exists>j < n. v j = b) \<and> (\<forall>j < n. v j \<le> b)"
proof (induction n arbitrary: b)
  case 0
  then show ?case by simp
next
  case (Suc n)
  show ?case
  proof (cases "best_upto v n")
    case None
    then have "n = 0" by (simp add: best_upto_None)
    with Suc.prems None show ?thesis by auto
  next
    case (Some b0)
    from Suc.IH [OF Some] obtain j where j: "j < n" "v j = b0" and le: "\<forall>j < n. v j \<le> b0"
      by blast
    show ?thesis
    proof (cases "b0 < v n")
      case True
      with Suc.prems Some have "b = v n" by simp
      with True le show ?thesis by (auto simp: less_Suc_eq intro: less_imp_le order_trans)
    next
      case False
      with Suc.prems Some have "b = b0" by simp
      with False le j show ?thesis by (auto simp: less_Suc_eq)
    qed
  qed
qed

lemma beats_best_iff_improves:
  "(case best_upto v n of None \<Rightarrow> True | Some b \<Rightarrow> b < v n) \<longleftrightarrow> improves v n"
proof (cases "best_upto v n")
  case None
  then show ?thesis by (simp add: best_upto_None improves_def)
next
  case (Some b)
  from best_upto_Some [OF Some] show ?thesis
    using Some by (auto simp: improves_def intro: le_less_trans)
qed


lemma best_upto_Suc: "best_upto v (Suc n) = (if improves v n then Some (v n) else best_upto v n)"
  using beats_best_iff_improves [of v n] by (auto split: option.splits)

lemma checkpoint_object_best: "checkpoint_object\<lparr>best := None\<rparr> = checkpoint_object"
  by (simp add: checkpoint_object_def)

lemma second_fit_loop:
  assumes "\<forall>k < n. history k ''val_acc'' = Some (v k)"
  shows "\<exists>w'. fit_loop [0..<n] history [ModelCheckpoint checkpoint_object, lr_scheduler] w =
        Some ([ModelCheckpoint (checkpoint_object\<lparr>best := best_upto v n\<rparr>), lr_scheduler], w')
      \<and> writes w' = writes w @ map (\<lambda>k. (k, Save_model filepath)) (filter (improves v) [0..<n])"
  using assms
proof (induction n)
  case 0
  then show ?case by (simp add: checkpoint_object_best)
next
  case (Suc n)
  then obtain w' where run: "fit_loop [0..<n] history [ModelCheckpoint checkpoint_object, lr_scheduler] w =
        Some ([ModelCheckpoint (checkpoint_object\<lparr>best := best_upto v n\<rparr>), lr_scheduler], w')"
    and wr: "writes w' = writes w @ map (\<lambda>k. (k, Save_model filepath)) (filter (improves v) [0..<n])"
    by auto
  from Suc.prems have val: "history n ''val_acc'' = Some (v n)" by simp
  have split: "fit_loop [0..<Suc n] history [ModelCheckpoint checkpoint_object, lr_scheduler] w =
      fit_loop [n] history
        [ModelCheckpoint (checkpoint_object\<lparr>best := best_upto v n\<rparr>), lr_scheduler] w'"
    using run by (simp add: fit_loop_append del: fit_loop.simps)
  show ?case
    unfolding split fit_loop_epoch val
    using wr beats_best_iff_improves [of v n]
    by (simp add: best_upto_Suc writes_on_epoch_begin del: best_upto.simps)
qed

lemma fit_loop_epoch_paths:
  "\<exists>b1 w1. fit_loop [e] history [ModelCheckpoint (checkpoint_object\<lparr>best := b\<rparr>), lr_scheduler] w =
        Some ([ModelCheckpoint (checkpoint_object\<lparr>best := b1\<rparr>), lr_scheduler], w1)
      \<and> set (writes w1) \<subseteq> set (writes w) \<union> {(e, Save_model filepath)}"
proof (cases "history e ''val_acc''")
  case None
  show ?thesis
    unfolding fit_loop_epoch None
    by (intro exI [of _ b] exI [of _ "on_epoch_begin lr_scheduler e w"])
       (auto simp: writes_on_epoch_begin)
next
  case (Some current)
  show ?thesis
  proof (cases "case b of None \<Rightarrow> True | Some b' \<Rightarrow> b' < current")
    case True
    then show ?thesis
      unfolding fit_loop_epoch Some
      by (intro exI [of _ "Some current"]
            exI [of _ "(on_epoch_begin lr_scheduler e w)
              \<lparr>writes := writes (on_epoch_begin lr_scheduler e w) @ [(e, Save_model filepath)]\<rparr>"])
         (auto simp: writes_on_epoch_begin)
  next
    case False
    then show ?thesis
      unfolding fit_loop_epoch Some
      by (intro exI [of _ b] exI [of _ "on_epoch_begin lr_scheduler e w"])
         (auto simp: writes_on_epoch_begin)
  qed
qed

lemma fit_loop_paths:
  "\<exists>b' w'. fit_loop es history [ModelCheckpoint (checkpoint_object\<lparr>best := b\<rparr>), lr_scheduler] w =
        Some ([ModelCheckpoint (checkpoint_object\<lparr>best := b'\<rparr>), lr_scheduler], w')
      \<and> set (writes w') \<subseteq> set (writes w) \<union> {(k, Save_model filepath) |k. k \<in> set es}"
proof (induction es arbitrary: b w)
  case Nil
  then show ?case by auto
next
  case (Cons e es)
  from fit_loop_epoch_paths [of e history b w]
  obtain b1 w1 where one: "fit_loop [e] history
        [ModelCheckpoint (checkpoint_object\<lparr>best := b\<rparr>), lr_scheduler] w =
        Some ([ModelCheckpoint (checkpoint_object\<lparr>best := b1\<rparr>), lr_scheduler], w1)"
    and w1: "set (writes w1) \<subseteq> set (writes w) \<union> {(e, Save_model filepath)}"
    by blast
  from Cons [of b1 w1] obtain b' w' where rest: "fit_loop es history
        [ModelCheckpoint (checkpoint_object\<lparr>best := b1\<rparr>), lr_scheduler] w1 =
        Some ([ModelCheckpoint (checkpoint_object\<lparr>best := b'\<rparr>), lr_scheduler], w')"
    and w': "set (writes w') \<subseteq> set (writes w1) \<union> {(k, Save_model filepath) |k. k \<in> set es}"
    by blast
  have "fit_loop (e # es) history
        [ModelCheckpoint (checkpoint_object\<lparr>best := b\<rparr>), lr_scheduler] w =
        Some ([ModelCheckpoint (checkpoint_object\<lparr>best := b'\<rparr>), lr_scheduler], w')"
    by (subst fit_loop_Cons) (simp add: one rest del: fit_loop.simps)
  moreover from w1 w'
  have "set (writes w') \<subseteq> set (writes w) \<union> {(k, Save_model filepath) |k. k \<in> set (e # es)}"
    by auto
  ultimately show ?case by blast
qed

lemma training_first_fit:
  "fit first_fit history w = Some ([], w)"
  by (simp add: fit_def first_fit_def fit_loop_no_callbacks)

lemma training_second_fit:
  "fit second_fit history w =
     fit_loop [0..<100] history [ModelCheckpoint checkpoint_object, lr_scheduler] w"
  by (simp add: fit_def second_fit_def checkpoint_def)

lemma training_writes:
  assumes "\<forall>k < 100. history 1 k ''val_acc'' = Some (v k)"
  shows "\<exists>w. training history = Some w
      \<and> writes w = map (\<lambda>k. (k, Save_model filepath)) (filter (improves v) [0..<100])"
proof -
  from second_fit_loop [of 100 "history 1" v "\<lparr>lr = 1 / 1000, stdout = [], writes = []\<rparr>", OF assms]
  obtain w' where
    "fit_loop [0..<100] (history 1) [ModelCheckpoint checkpoint_object, lr_scheduler]
       \<lparr>lr = 1 / 1000, stdout = [], writes = []\<rparr> =
     Some ([ModelCheckpoint (checkpoint_object\<lparr>best := best_upto v 100\<rparr>), lr_scheduler], w')"
    and "writes w' = map (\<lambda>k. (k, Save_model filepath)) (filter (improves v) [0..<100])"
    by auto
  then show ?thesis
    by (simp add: training_def Let_def training_first_fit training_second_fit)
qed

lemma training_paths:
  "\<exists>w. training history = Some w \<and> set (writes w) \<subseteq> {(k, Save_model filepath) |k. k < 100}"
proof -
  from fit_loop_paths [of "[0..<100]" "history 1" None "\<lparr>lr = 1 / 1000, stdout = [], writes = []\<rparr>"]
  obtain b' w' where
    "fit_loop [0..<100] (history 1) [ModelCheckpoint checkpoint_object, lr_scheduler]
       \<lparr>lr = 1 / 1000, stdout = [], writes = []\<rparr> =
     Some ([ModelCheckpoint (checkpoint_object\<lparr>best := b'\<rparr>), lr_scheduler], w')"
    and "set (writes w') \<subseteq> {(k, Save_model filepath) |k. k < 100}"
    by (auto simp: checkpoint_object_best)
  then show ?thesis
    by (simp add: training_def Let_def training_first_fit training_second_fit)
qed

text \<open>
  Claim C3. In a run of the script in which every epoch of the second \<open>fit\<close> logs
  \<open>val_acc\<close>, the checkpoint callback saves the model (weights included) to
  \<open>filepath\<close> at exactly those epochs whose \<open>val_acc\<close> is greater than the \<open>val_acc\<close>
  of every earlier epoch, once each and in the order of the epochs, and nothing else is
  written.
\<close>

theorem checkpoint_saves_on_improvement:
  assumes "\<forall>k < 100. history 1 k ''val_acc'' = Some (v k)"
  shows "\<exists>w. training history = Some w
      \<and> writes w = map (\<lambda>k. (k, Save_model filepath)) (filter (improves v) [0..<100])
      \<and> (\<forall>k. (k, Save_model filepath) \<in> set (writes w) \<longleftrightarrow> k < 100 \<and> (\<forall>j < k. v j < v k))"
proof -
  from training_writes [of history v, OF assms] obtain w where w: "training history = Some w"
    and wr: "writes w = map (\<lambda>k. (k, Save_model filepath)) (filter (improves v) [0..<100])"
    by blast
  have "(k, Save_model filepath) \<in> set (writes w) \<longleftrightarrow> k < 100 \<and> (\<forall>j < k. v j < v k)" for k
    unfolding wr by (auto simp: improves_def)
  with w wr show ?thesis by blast
qed

theorem checkpoint_saves_on_improvement_witness:
  "(\<lambda>(i :: nat) (k :: nat).
        [''val_acc'' \<mapsto> if k = 0 then 1 / 2 else if k = 2 then 3 / 5 else 2 / 5 :: real])
      1 2 ''val_acc'' = Some (3 / 5)
   \<and> (\<exists>w. training (\<lambda>i k. [''val_acc'' \<mapsto> if k = 0 then 1 / 2 else if k = 2 then 3 / 5 else 2 / 5])
            = Some w
        \<and> (2, Save_model ''./checkpoints'') \<in> set (writes w)
        \<and> (1, Save_model ''./checkpoints'') \<notin> set (writes w))"
proof -
  let ?v = "\<lambda>k :: nat. if k = 0 then 1 / 2 else if k = 2 then 3 / 5 else 2 / 5 :: real"
  let ?h = "\<lambda>(i :: nat) k. [''val_acc'' \<mapsto> ?v k]"
  have hyp: "\<forall>k < 100. ?h 1 k ''val_acc'' = Some (?v k)" by simp
  from checkpoint_saves_on_improvement [of ?h ?v, OF hyp]
  obtain w where w: "training ?h = Some w"
    and iff: "\<forall>k. (k, Save_model filepath) \<in> set (writes w) \<longleftrightarrow> k < 100 \<and> (\<forall>j < k. ?v j < ?v k)"
    by blast
  have two: "\<forall>j < 2. ?v j < ?v 2" by (auto simp: less_Suc_eq numeral_2_eq_2)
  have one: "\<not> (\<forall>j < 1. ?v j < ?v 1)" by simp
  from iff two have "(2, Save_model filepath) \<in> set (writes w)" by simp
  moreover from iff one have "(1, Save_model filepath) \<notin> set (writes w)" by blast
  ultimately show ?thesis using w by (auto simp: filepath_def)
qed

text \<open>
  Claim C8. \<open>filepath\<close> is \<open>./checkpoints\<close>, and whatever the epochs log, the run of
  the script ends and every file it has written was written by \<open>model.save\<close> to that
  path.
\<close>

theorem only_checkpoint_path:
  "filepath = ''./checkpoints''
   \<and> (\<exists>w. training history = Some w
        \<and> (\<forall>x \<in> set (writes w). snd x = Save_model ''./checkpoints''))"
proof -
  from training_paths [of history] obtain w where "training history = Some w"
    and "set (writes w) \<subseteq> {(k, Save_model filepath) |k. k < 100}"
    by blast
  then show ?thesis by (auto simp: filepath_def)
qed

theorem only_checkpoint_path_witness:
  "\<exists>w. training (\<lambda>i k. [''val_acc'' \<mapsto> 1 / 2]) = Some w
     \<and> (0, Save_model ''./checkpoints'') \<in> set (writes w)
     \<and> snd (0 :: nat, Save_model ''./checkpoints'') = Save_model ''./checkpoints''"
proof -
  let ?h = "\<lambda>(i :: nat) (k :: nat). [''val_acc'' \<mapsto> 1 / 2 :: real]"
  from only_checkpoint_path [of ?h] obtain w where w: "training ?h = Some w"
    and all: "\<forall>x \<in> set (writes w). snd x = Save_model ''./checkpoints''"
    by blast
  have "\<forall>k < 100. ?h 1 k ''val_acc'' = Some ((\<lambda>k. 1 / 2) k)" by simp
  from training_writes [of ?h "\<lambda>k. 1 / 2", OF this] w
  have "writes w = map (\<lambda>k. (k, Save_model filepath)) (filter (improves (\<lambda>k. 1 / 2)) [0..<100])"
    by simp
  moreover have "improves (\<lambda>k. 1 / 2 :: real) 0" by (simp add: improves_def)
  ultimately have mem: "(0, Save_model ''./checkpoints'') \<in> set (writes w)"
    by (simp add: filepath_def)
  with all have "snd (0 :: nat, Save_model ''./checkpoints'') = Save_model ''./checkpoints''"
    by simp
  with w mem show ?thesis by blast
qed

text \<open>
  Claim C4, as the code has it. The script calls \<open>model.fit\<close> twice. The first call
  (cell In[17]) passes no callbacks, so it runs none: it writes no file and leaves the
  learning rate as it is. The second passes the checkpoint callback and the
  learning-rate scheduler, in this order.
\<close>

theorem fit_callbacks:
  "fit_calls = [first_fit, second_fit]
   \<and> callbacks first_fit = []
   \<and> callbacks second_fit = [checkpoint, lr_scheduler]
   \<and> fit first_fit history w = Some ([], w)"
  by (simp add: fit_calls_def first_fit_def second_fit_def fit_def fit_loop_no_callbacks)

text \<open>
  Claim C4, as it is stated, says that every \<open>model.fit\<close> call of the script passes the
  two callbacks. The first call is one of the script's calls and passes none.
\<close>

theorem first_fit_counterexample:
  "first_fit \<in> set fit_calls
   \<and> callbacks first_fit = []
   \<and> callbacks first_fit \<noteq> [checkpoint, lr_scheduler]"
  by (simp add: fit_calls_def first_fit_def)

end
